theory Spec2Isabelle
  imports Complex_Main
begin

section \<open>Python values and arithmetic used by the scheduling core\<close>

text \<open>
  The stage modules compare and store values of different Python types in the same
  place (for example \<open>solver_status\<close> holds an \<open>int\<close> in \<open>Dispensing_PS\<close> and a
  \<open>str\<close> in the other three modules), so those values are tagged. Python's \<open>==\<close>
  and \<open>!=\<close> between an \<open>int\<close> and a \<open>str\<close> never raise: the values are unequal.
  Equality of the datatype is exactly that comparison.
\<close>

datatype pyval = PyInt int | PyStr string

text \<open>
  \<open>int(x)\<close> on a float truncates towards zero; \<open>math.ceil\<close> is the ceiling.
  The code applies them to doubles. The model takes the numbers exactly, as rationals:
  a quotient \<open>batches_required / capacity\<close>, a product
  \<open>min_staff * (1 + buffer_ratio)\<close> and a percentage are the values the code would
  have without rounding. For the quotients of the diagnostics, whose capacity is at
  most 12, the ceiling of the double is the exact ceiling as long as the demand is
  below \<open>2^50\<close> in absolute value (the doubles are then less than \<open>1/6\<close> apart
  near the quotient, and every integer of that size is a double); beyond \<open>2^53\<close>
  the double may round across an integer, and beyond the range of doubles the
  division raises \<open>OverflowError\<close>. What is proved about a diagnostic below is
  stated for demands within that bound.
\<close>

definition py_int :: "rat \<Rightarrow> int" where
  "py_int x = (if 0 \<le> x then \<lfloor>x\<rfloor> else \<lceil>x\<rceil>)"

definition py_ceil :: "rat \<Rightarrow> int" where
  "py_ceil x = \<lceil>x\<rceil>"

section \<open>The model handed to the external solver\<close>

datatype shift = Morning | Evening | Night

text \<open>
  \<open>Line\<close> is the single implicit resource of Dispensing and Granulation (their
  variables are \<open>M_d\<close>, \<open>E_d\<close>, \<open>N_d\<close>); the others are the named machines of
  Tableting and Coating (\<open>M_p3030_d\<close>, \<open>E_bosch_d\<close>, ...).
\<close>

datatype resource = Line | P3030 | P3090i | IMA | Solution | BOSCH | GLATT

datatype var = Act shift resource nat | Staff | DayUsed nat

text \<open>An affine expression without constant part: the sum of coefficient times variable.\<close>

type_synonym linexp = "(rat \<times> var) list"

definition lpSum :: "linexp list \<Rightarrow> linexp" where
  "lpSum es = concat es"

definition scale :: "rat \<Rightarrow> linexp \<Rightarrow> linexp" where
  "scale c e = map (\<lambda>(k, v). (c * k, v)) e"

text \<open>\<open>GeConst e c\<close> is the constraint \<open>e >= c\<close>, \<open>GeExp e f\<close> is \<open>e >= f\<close>.\<close>

datatype constraint = GeConst linexp rat | GeExp linexp linexp

text \<open>The name given to a constraint: none, a fixed one, or one that ends in the day.\<close>

datatype cname = Unnamed | Named string | Indexed string nat

record lp_problem =
  problem_name :: string
  variables :: "var list"
  objective :: linexp
  constraints :: "(cname \<times> constraint) list"

text \<open>
  The solver is a black box: \<open>model.solve(s)\<close> returns the status of the solve and
  leaves a value in every variable. PuLP's status codes and the table
  \<open>pulp.LpStatus\<close> are those of the library.
\<close>

datatype lp_status = NotSolved | Optimal | Infeasible | Unbounded | Undefined

fun status_code :: "lp_status \<Rightarrow> int" where
  "status_code NotSolved = 0"
| "status_code Optimal = 1"
| "status_code Infeasible = - 1"
| "status_code Unbounded = - 2"
| "status_code Undefined = - 3"

fun LpStatus :: "lp_status \<Rightarrow> string" where
  "LpStatus NotSolved = ''Not Solved''"
| "LpStatus Optimal = ''Optimal''"
| "LpStatus Infeasible = ''Infeasible''"
| "LpStatus Unbounded = ''Unbounded''"
| "LpStatus Undefined = ''Undefined''"

type_synonym assignment = "var \<Rightarrow> rat"

type_synonym solver = "lp_problem \<Rightarrow> lp_status \<times> assignment"

text \<open>
  The solver objects the stage modules use: \<open>SOLVER_INSTANCE\<close> and \<open>solver\<close> are
  imported from \<open>PS_GUI3\<close> (which does not define them, so they are parameters
  here), \<open>PULP_CBC_CMD\<close> is PuLP's bundled solver.
\<close>

record env =
  SOLVER_INSTANCE :: solver
  PS_GUI3_solver :: solver
  PULP_CBC_CMD :: solver

subsection \<open>What a solution of a model is\<close>

definition eval_lin :: "assignment \<Rightarrow> linexp \<Rightarrow> rat" where
  "eval_lin a e = sum_list (map (\<lambda>(k, v). k * a v) e)"




section \<open>Results and effects\<close>

record weights =
  w_staff :: rat
  w_morning :: rat
  w_evening :: rat
  w_night :: rat
  w_weekend :: rat
  w_daysUsed :: rat

text \<open>
  A Stage Result is the dictionary a stage solve returns. The keys below are those
  all four stages set; Dispensing and Granulation store one number per shift (kept
  here under the resource \<open>Line\<close>) and have no key \<open>machines_used\<close> (the empty
  list). Dispensing, Granulation and Tableting add \<open>total_batches_produced\<close>;
  Coating adds \<open>total_solution_produced\<close>, \<open>total_coating_produced\<close> and
  \<open>final_batches_count\<close> instead.
\<close>

record stage_common =
  machines_used :: "(resource \<times> bool) list"
  morning_shifts :: "(resource \<times> int) list"
  evening_shifts :: "(resource \<times> int) list"
  night_shifts :: "(resource \<times> int) list"
  pct_demand_completed :: rat
  min_staff_required :: int
  staff_with_buffer :: int
  days_used :: int
  num_workdays_horizon :: int
  solver_status :: pyval

record stage_result = stage_common +
  total_batches_produced :: int

record coating_result = stage_common +
  total_solution_produced :: int
  total_coating_produced :: int
  final_batches_count :: int

text \<open>What the stage solves print, with the numbers the messages carry.\<close>

datatype message =
    Infeasible_from_start int int int int
  | No_machines_selected
  | Infeasible_for_solution int int int
  | Infeasible_for_coating int int int int
  | No_optimal_solution pyval "(int \<times> int) option"
  | Stage_summary stage_result
  | Coating_summary coating_result
  | Combined_summary int int
  | No_feasible_365
  | Schedule_summary int int
  | No_feasible_solution
  | Maximum_summary int

datatype stage = Dispensing | Granulation | Tableting | Coating

text \<open>
  The effects of a call, in order: a model handed to the external solver, a message
  printed, the call of a stage solve with its demand and horizon, the call of the
  Aggregator with its batch count and horizon.
\<close>

datatype event =
    Solve lp_problem
  | Print message
  | Stage_call stage int int
  | Aggregator_call int int

type_synonym 'a run = "'a option \<times> event list"

section \<open>The stage solves\<close>

definition weekend_days :: "int \<Rightarrow> nat list" where
  "weekend_days num_workdays = filter (\<lambda>d. d mod 7 \<in> set [5, 6]) [0..<nat num_workdays]"

definition days :: "int \<Rightarrow> nat list" where
  "days num_workdays = [0..<nat num_workdays]"

definition lpvar :: "var \<Rightarrow> linexp" where
  "lpvar v = [(1, v)]"

text \<open>\<open>make_var\<close> of Tableting and Coating: a binary variable, or the constant 0.\<close>

definition make_var :: "var \<Rightarrow> bool \<Rightarrow> linexp" where
  "make_var v use_machine = (if use_machine then lpvar v else [])"

definition declared :: "var \<Rightarrow> bool \<Rightarrow> var list" where
  "declared v use_machine = (if use_machine then [v] else [])"

text \<open>\<open>sum(int(X[d].varValue) for d in range(num_workdays))\<close>\<close>

definition var_sum :: "assignment \<Rightarrow> int \<Rightarrow> (nat \<Rightarrow> var) \<Rightarrow> int" where
  "var_sum a num_workdays X = sum_list (map (\<lambda>d. py_int (a (X d))) (days num_workdays))"

subsection \<open>Dispensing and Granulation: one line, 3 batches and 6 people per shift\<close>

text \<open>
  The two modules build the same model up to the order of the summands of the
  objective and the name of the problem.
\<close>

text \<open>\<open>total_batches\<close>, the left-hand side of the demand constraint.\<close>

definition line_demand_lhs :: "int \<Rightarrow> linexp" where
  "line_demand_lhs num_workdays =
     (let M_vars = (\<lambda>d. lpvar (Act Morning Line d));
          E_vars = (\<lambda>d. lpvar (Act Evening Line d));
          N_vars = (\<lambda>d. lpvar (Act Night Line d))
      in scale 3 (lpSum (map (\<lambda>d. M_vars d @ E_vars d @ N_vars d) (days num_workdays))))"

definition line_constraints :: "int \<Rightarrow> int \<Rightarrow> (cname \<times> constraint) list" where
  "line_constraints batches_required num_workdays =
     (let M_vars = (\<lambda>d. lpvar (Act Morning Line d));
          E_vars = (\<lambda>d. lpvar (Act Evening Line d));
          N_vars = (\<lambda>d. lpvar (Act Night Line d));
          staff_var = lpvar Staff;
          dayUsed = (\<lambda>d. lpvar (DayUsed d));
          total_batches = line_demand_lhs num_workdays
      in [(Named ''DemandConstraint'', GeConst total_batches (of_int batches_required))]
         @ map (\<lambda>d. (Indexed ''StaffReq'' d,
                       GeExp staff_var (scale 6 (M_vars d @ E_vars d @ N_vars d))))
             (days num_workdays)
         @ concat (map (\<lambda>d. [(Unnamed, GeExp (dayUsed d) (M_vars d)),
                               (Unnamed, GeExp (dayUsed d) (E_vars d)),
                               (Unnamed, GeExp (dayUsed d) (N_vars d))])
             (days num_workdays)))"

definition line_variables :: "int \<Rightarrow> var list" where
  "line_variables num_workdays =
     map (Act Morning Line) (days num_workdays)
     @ map (Act Evening Line) (days num_workdays)
     @ map (Act Night Line) (days num_workdays)
     @ [Staff]
     @ map DayUsed (days num_workdays)"

definition dispensing_model :: "int \<Rightarrow> int \<Rightarrow> weights \<Rightarrow> lp_problem" where
  "dispensing_model batches_required num_workdays w =
     (let M_vars = (\<lambda>d. lpvar (Act Morning Line d));
          E_vars = (\<lambda>d. lpvar (Act Evening Line d));
          N_vars = (\<lambda>d. lpvar (Act Night Line d));
          staff_var = lpvar Staff;
          dayUsed = (\<lambda>d. lpvar (DayUsed d));
          obj_night = scale (w_night w) (lpSum (map N_vars (days num_workdays)));
          obj_weekend = scale (w_weekend w)
            (lpSum (map (\<lambda>d. M_vars d @ E_vars d @ N_vars d) (weekend_days num_workdays)));
          obj_daysUsed = scale (w_daysUsed w) (lpSum (map dayUsed (days num_workdays)));
          obj_morning = scale (w_morning w) (lpSum (map M_vars (days num_workdays)));
          obj_evening = scale (w_evening w) (lpSum (map E_vars (days num_workdays)))
      in \<lparr> problem_name = ''DispensingSchedule'',
           variables = line_variables num_workdays,
           objective = scale (w_staff w) staff_var @ obj_night @ obj_weekend
                       @ obj_daysUsed @ obj_morning @ obj_evening,
           constraints = line_constraints batches_required num_workdays \<rparr>)"

definition granulation_model :: "int \<Rightarrow> int \<Rightarrow> weights \<Rightarrow> lp_problem" where
  "granulation_model batches_required num_workdays w =
     (let M_vars = (\<lambda>d. lpvar (Act Morning Line d));
          E_vars = (\<lambda>d. lpvar (Act Evening Line d));
          N_vars = (\<lambda>d. lpvar (Act Night Line d));
          staff_var = lpvar Staff;
          dayUsed = (\<lambda>d. lpvar (DayUsed d));
          obj_morning = scale (w_morning w) (lpSum (map M_vars (days num_workdays)));
          obj_evening = scale (w_evening w) (lpSum (map E_vars (days num_workdays)));
          obj_night = scale (w_night w) (lpSum (map N_vars (days num_workdays)));
          obj_weekend = scale (w_weekend w)
            (lpSum (map (\<lambda>d. M_vars d @ E_vars d @ N_vars d) (weekend_days num_workdays)));
          obj_daysUsed = scale (w_daysUsed w) (lpSum (map dayUsed (days num_workdays)))
      in \<lparr> problem_name = ''GranulationSchedule'',
           variables = line_variables num_workdays,
           objective = scale (w_staff w) staff_var @ obj_morning @ obj_evening
                       @ obj_night @ obj_weekend @ obj_daysUsed,
           constraints = line_constraints batches_required num_workdays \<rparr>)"

text \<open>Steps 7 and 8 of both modules: the dictionary built from the variables' values.\<close>

definition line_result :: "assignment \<Rightarrow> int \<Rightarrow> int \<Rightarrow> rat \<Rightarrow> pyval \<Rightarrow> stage_result" where
  "line_result a batches_required num_workdays buffer_ratio status =
     (let morning_days = var_sum a num_workdays (Act Morning Line);
          evening_days = var_sum a num_workdays (Act Evening Line);
          night_days = var_sum a num_workdays (Act Night Line);
          min_staff = py_int (a Staff);
          total_produced = 3 * (morning_days + evening_days + night_days)
      in \<lparr> machines_used = [],
           morning_shifts = [(Line, morning_days)],
           evening_shifts = [(Line, evening_days)],
           night_shifts = [(Line, night_days)],
           pct_demand_completed =
             (if batches_required > 0
              then (of_int total_produced / of_int batches_required) * 100 else 0),
           min_staff_required = min_staff,
           staff_with_buffer = py_ceil (of_int min_staff * (1 + buffer_ratio)),
           days_used = var_sum a num_workdays DayUsed,
           num_workdays_horizon = num_workdays,
           solver_status = status,
           total_batches_produced = total_produced \<rparr>)"

text \<open>
  The message of the branch \<open>solver_status != 'Optimal'\<close>: the status, and the two
  day counts when more days are needed.
\<close>

definition not_optimal_message :: "pyval \<Rightarrow> int \<Rightarrow> int \<Rightarrow> message" where
  "not_optimal_message status needed_days num_workdays =
     (let more_days_needed = max 0 (needed_days - num_workdays)
      in No_optimal_solution status
           (if more_days_needed > 0 then Some (needed_days, more_days_needed) else None))"

definition optimize_dispensing ::
  "env \<Rightarrow> int \<Rightarrow> int \<Rightarrow> rat \<Rightarrow> weights \<Rightarrow> bool \<Rightarrow> solver option \<Rightarrow> stage_result run" where
  "optimize_dispensing e batches_required num_workdays buffer_ratio w print_solution solver =
     (let solver_to_use = (case solver of Some s \<Rightarrow> s | None \<Rightarrow> SOLVER_INSTANCE e);
          max_daily_batches = 9
      in if max_daily_batches * num_workdays < batches_required then
           (None,
            if print_solution then
              (let needed_days = py_ceil (of_int batches_required / of_int max_daily_batches);
                   more_days_needed = needed_days - num_workdays
               in [Print (Infeasible_from_start batches_required num_workdays
                            needed_days more_days_needed)])
            else [])
         else
           (let model = dispensing_model batches_required num_workdays w;
                (status, a) = solver_to_use model;
                solver_status = PyInt (status_code status)
            in if solver_status \<noteq> PyStr ''Optimal'' then
                 (None,
                  Solve model #
                  (if print_solution then
                     [Print (not_optimal_message solver_status
                        (py_ceil (of_int batches_required / of_int max_daily_batches))
                        num_workdays)]
                   else []))
               else
                 (let r = line_result a batches_required num_workdays buffer_ratio solver_status
                  in (Some r,
                      Solve model # (if print_solution then [Print (Stage_summary r)] else [])))))"

definition optimize_granulation ::
  "env \<Rightarrow> int \<Rightarrow> int \<Rightarrow> rat \<Rightarrow> weights \<Rightarrow> bool \<Rightarrow> solver option \<Rightarrow> stage_result run" where
  "optimize_granulation e batches_required num_workdays buffer_ratio w print_solution solver =
     (let solver_to_use = (case solver of Some s \<Rightarrow> s | None \<Rightarrow> SOLVER_INSTANCE e);
          max_daily_batches = 9
      in if max_daily_batches * num_workdays < batches_required then
           (None,
            if print_solution then
              (let needed_days = py_ceil (of_int batches_required / of_int max_daily_batches);
                   more_days_needed = needed_days - num_workdays
               in [Print (Infeasible_from_start batches_required num_workdays
                            needed_days more_days_needed)])
            else [])
         else
           (let model = granulation_model batches_required num_workdays w;
                (status, a) = solver_to_use model;
                solver_status = PyStr (LpStatus status)
            in if solver_status \<noteq> PyStr ''Optimal'' then
                 (None,
                  Solve model #
                  (if print_solution then
                     [Print (not_optimal_message solver_status
                        (py_ceil (of_int batches_required / of_int max_daily_batches))
                        num_workdays)]
                   else []))
               else
                 (let r = line_result a batches_required num_workdays buffer_ratio solver_status
                  in (Some r,
                      Solve model # (if print_solution then [Print (Stage_summary r)] else [])))))"

subsection \<open>Tableting: P3030 and IMA make 1 batch a shift, P3090i makes 2; 3 people each\<close>

definition tableting_demand_lhs :: "int \<Rightarrow> bool \<Rightarrow> bool \<Rightarrow> bool \<Rightarrow> linexp" where
  "tableting_demand_lhs num_workdays use_p3030 use_p3090i use_ima =
     (let X = (\<lambda>s m u d. make_var (Act s m d) u);
          total_batches = concat (map (\<lambda>d.
            [scale 1 (X Morning P3030 use_p3030 d) @ scale 2 (X Morning P3090i use_p3090i d)
               @ scale 1 (X Morning IMA use_ima d),
             scale 1 (X Evening P3030 use_p3030 d) @ scale 2 (X Evening P3090i use_p3090i d)
               @ scale 1 (X Evening IMA use_ima d),
             scale 1 (X Night P3030 use_p3030 d) @ scale 2 (X Night P3090i use_p3090i d)
               @ scale 1 (X Night IMA use_ima d)]) (days num_workdays))
      in lpSum total_batches)"

definition tableting_model ::
  "int \<Rightarrow> int \<Rightarrow> bool \<Rightarrow> bool \<Rightarrow> bool \<Rightarrow> weights \<Rightarrow> lp_problem" where
  "tableting_model batches_required num_workdays use_p3030 use_p3090i use_ima w =
     (let X = (\<lambda>s m u d. make_var (Act s m d) u);
          machines = (\<lambda>s d. X s P3030 use_p3030 d @ X s P3090i use_p3090i d @ X s IMA use_ima d);
          all_machines = (\<lambda>d.
            X Morning P3030 use_p3030 d @ X Evening P3030 use_p3030 d @ X Night P3030 use_p3030 d
            @ X Morning P3090i use_p3090i d @ X Evening P3090i use_p3090i d
            @ X Night P3090i use_p3090i d
            @ X Morning IMA use_ima d @ X Evening IMA use_ima d @ X Night IMA use_ima d);
          staff_var = lpvar Staff;
          dayUsed = (\<lambda>d. lpvar (DayUsed d));
          total_morning_shifts = lpSum (map (machines Morning) (days num_workdays));
          total_evening_shifts = lpSum (map (machines Evening) (days num_workdays));
          total_night_shifts = lpSum (map (machines Night) (days num_workdays));
          total_weekend_shifts = lpSum (map all_machines (weekend_days num_workdays));
          total_days_used = lpSum (map dayUsed (days num_workdays))
      in \<lparr> problem_name = ''TabletingSchedule'',
           variables =
             concat (map (\<lambda>(m, u). concat (map (\<lambda>s.
                 concat (map (\<lambda>d. declared (Act s m d) u) (days num_workdays)))
               [Morning, Evening, Night]))
               [(P3030, use_p3030), (P3090i, use_p3090i), (IMA, use_ima)])
             @ [Staff] @ map DayUsed (days num_workdays),
           objective =
             scale (w_staff w) staff_var
             @ scale (w_morning w) total_morning_shifts
             @ scale (w_evening w) total_evening_shifts
             @ scale (w_night w) total_night_shifts
             @ scale (w_weekend w) total_weekend_shifts
             @ scale (w_daysUsed w) total_days_used,
           constraints =
             [(Named ''DemandConstraint'',
               GeConst (tableting_demand_lhs num_workdays use_p3030 use_p3090i use_ima)
                 (of_int batches_required))]
             @ map (\<lambda>d. (Indexed ''StaffDay'' d, GeExp staff_var (scale 3 (all_machines d))))
                 (days num_workdays)
             @ map (\<lambda>d. (Indexed ''DayUsed'' d, GeExp (dayUsed d) (scale (1 / 9) (all_machines d))))
                 (days num_workdays) \<rparr>)"

definition optimize_tableting ::
  "env \<Rightarrow> int \<Rightarrow> int \<Rightarrow> bool \<Rightarrow> bool \<Rightarrow> bool \<Rightarrow> rat \<Rightarrow> weights \<Rightarrow> bool \<Rightarrow> stage_result run" where
  "optimize_tableting e batches_required num_workdays use_p3030 use_p3090i use_ima
       buffer_ratio w print_solution =
     (let machine_output =
            (if use_p3030 then 1 else 0) + (if use_p3090i then 2 else 0) + (if use_ima then 1 else 0);
          max_daily_batches = machine_output * 3
      in if max_daily_batches = 0 then
           (None, if print_solution then [Print No_machines_selected] else [])
         else if max_daily_batches * num_workdays < batches_required then
           (None,
            if print_solution then
              (let needed_days = py_ceil (of_int batches_required / of_int max_daily_batches);
                   more_days_needed = needed_days - num_workdays
               in [Print (Infeasible_from_start batches_required num_workdays
                            needed_days more_days_needed)])
            else [])
         else
           (let model = tableting_model batches_required num_workdays use_p3030 use_p3090i use_ima w;
                (status, a) = PS_GUI3_solver e model;
                solver_status = PyStr (LpStatus status)
            in if solver_status \<noteq> PyStr ''Optimal'' then
                 (None,
                  Solve model #
                  (if print_solution then
                     [Print (not_optimal_message solver_status
                        (py_ceil (of_int batches_required / of_int max_daily_batches))
                        num_workdays)]
                   else []))
               else
                 (let count = (\<lambda>s m u. if u then var_sum a num_workdays (Act s m) else 0);
                      min_staff = py_int (a Staff);
                      total_produced =
                        eval_lin a (tableting_demand_lhs num_workdays use_p3030 use_p3090i use_ima);
                      r = \<lparr> machines_used =
                              [(P3030, use_p3030), (P3090i, use_p3090i), (IMA, use_ima)],
                            morning_shifts =
                              [(P3030, count Morning P3030 use_p3030),
                               (P3090i, count Morning P3090i use_p3090i),
                               (IMA, count Morning IMA use_ima)],
                            evening_shifts =
                              [(P3030, count Evening P3030 use_p3030),
                               (P3090i, count Evening P3090i use_p3090i),
                               (IMA, count Evening IMA use_ima)],
                            night_shifts =
                              [(P3030, count Night P3030 use_p3030),
                               (P3090i, count Night P3090i use_p3090i),
                               (IMA, count Night IMA use_ima)],
                            pct_demand_completed =
                              (if batches_required > 0
                               then (total_produced / of_int batches_required) * 100 else 0),
                            min_staff_required = min_staff,
                            staff_with_buffer = py_ceil (of_int min_staff * (1 + buffer_ratio)),
                            days_used = var_sum a num_workdays DayUsed,
                            num_workdays_horizon = num_workdays,
                            solver_status = solver_status,
                            total_batches_produced = py_int total_produced \<rparr>
                  in (Some r,
                      Solve model # (if print_solution then [Print (Stage_summary r)] else [])))))"

subsection \<open>Coating: Solution makes 4 batches a shift, BOSCH and GLATT 2 each; 2 people each\<close>

definition solution_demand_lhs :: "int \<Rightarrow> linexp" where
  "solution_demand_lhs num_workdays =
     lpSum (concat (map (\<lambda>d.
       [scale 4 (make_var (Act Morning Solution d) True),
        scale 4 (make_var (Act Evening Solution d) True),
        scale 4 (make_var (Act Night Solution d) True)]) (days num_workdays)))"

definition coating_demand_lhs :: "int \<Rightarrow> bool \<Rightarrow> bool \<Rightarrow> linexp" where
  "coating_demand_lhs num_workdays use_bosch use_glatt =
     (let X = (\<lambda>s m u d. make_var (Act s m d) u)
      in lpSum (concat (map (\<lambda>d.
           [scale 2 (X Morning BOSCH use_bosch d) @ scale 2 (X Morning GLATT use_glatt d),
            scale 2 (X Evening BOSCH use_bosch d) @ scale 2 (X Evening GLATT use_glatt d),
            scale 2 (X Night BOSCH use_bosch d) @ scale 2 (X Night GLATT use_glatt d)])
           (days num_workdays))))"

definition coating_model :: "int \<Rightarrow> int \<Rightarrow> bool \<Rightarrow> bool \<Rightarrow> weights \<Rightarrow> lp_problem" where
  "coating_model batches_required num_workdays use_bosch use_glatt w =
     (let X = (\<lambda>s m u d. make_var (Act s m d) u);
          machines = (\<lambda>s d. X s Solution True d @ X s BOSCH use_bosch d @ X s GLATT use_glatt d);
          all_machines = (\<lambda>d.
            X Morning Solution True d @ X Evening Solution True d @ X Night Solution True d
            @ X Morning BOSCH use_bosch d @ X Evening BOSCH use_bosch d @ X Night BOSCH use_bosch d
            @ X Morning GLATT use_glatt d @ X Evening GLATT use_glatt d
            @ X Night GLATT use_glatt d);
          staff_var = lpvar Staff;
          dayUsed = (\<lambda>d. lpvar (DayUsed d));
          total_morning_shifts = lpSum (map (machines Morning) (days num_workdays));
          total_evening_shifts = lpSum (map (machines Evening) (days num_workdays));
          total_night_shifts = lpSum (map (machines Night) (days num_workdays));
          total_weekend_shifts = lpSum (map all_machines (weekend_days num_workdays));
          total_days_used = lpSum (map dayUsed (days num_workdays))
      in \<lparr> problem_name = ''CoatingSchedule'',
           variables =
             concat (map (\<lambda>(m, u). concat (map (\<lambda>s.
                 concat (map (\<lambda>d. declared (Act s m d) u) (days num_workdays)))
               [Morning, Evening, Night]))
               [(Solution, True), (BOSCH, use_bosch), (GLATT, use_glatt)])
             @ [Staff] @ map DayUsed (days num_workdays),
           objective =
             scale (w_staff w) staff_var
             @ scale (w_morning w) total_morning_shifts
             @ scale (w_evening w) total_evening_shifts
             @ scale (w_night w) total_night_shifts
             @ scale (w_weekend w) total_weekend_shifts
             @ scale (w_daysUsed w) total_days_used,
           constraints =
             [(Named ''SolutionDemand'',
               GeConst (solution_demand_lhs num_workdays) (of_int batches_required)),
              (Named ''CoatingDemand'',
               GeConst (coating_demand_lhs num_workdays use_bosch use_glatt)
                 (of_int batches_required))]
             @ map (\<lambda>d. (Indexed ''StaffDay'' d,
                   GeExp staff_var
                     (scale 2 (machines Morning d) @ scale 2 (machines Evening d)
                      @ scale 2 (machines Night d))))
                 (days num_workdays)
             @ map (\<lambda>d. (Indexed ''DayUsed'' d, GeExp (dayUsed d) (scale (1 / 9) (all_machines d))))
                 (days num_workdays) \<rparr>)"

text \<open>\<open>safe_value(x)\<close>: the value of a variable, or the constant that stands in its place.\<close>

definition safe_value :: "assignment \<Rightarrow> linexp \<Rightarrow> rat" where
  "safe_value a x = eval_lin a x"

definition optimize_coating ::
  "env \<Rightarrow> int \<Rightarrow> int \<Rightarrow> bool \<Rightarrow> bool \<Rightarrow> rat \<Rightarrow> weights \<Rightarrow> bool \<Rightarrow> coating_result run" where
  "optimize_coating e batches_required num_workdays use_bosch use_glatt
       buffer_ratio w print_solution =
     (let max_daily_solution = 12;
          coating_machines_used = (if use_bosch then 1 else 0) + (if use_glatt then 1 else 0)
      in if coating_machines_used = 0 then
           (None, if print_solution then [Print No_machines_selected] else [])
         else
          (let max_daily_coating = 2 * coating_machines_used * 3
           in if max_daily_solution * num_workdays < batches_required then
                (None,
                 if print_solution then
                   [Print (Infeasible_for_solution batches_required num_workdays
                      (py_ceil (of_int batches_required / of_int max_daily_solution)))]
                 else [])
              else if max_daily_coating * num_workdays < batches_required then
                (None,
                 if print_solution then
                   [Print (Infeasible_for_coating batches_required num_workdays max_daily_coating
                      (py_ceil (of_int batches_required / of_int max_daily_coating)))]
                 else [])
              else
                (let model = coating_model batches_required num_workdays use_bosch use_glatt w;
                     (status, a) = PULP_CBC_CMD e model;
                     solver_status = PyStr (LpStatus status)
                 in if solver_status \<noteq> PyStr ''Optimal'' then
                      (None,
                       Solve model #
                       (if print_solution then
                          [Print (not_optimal_message solver_status
                             (max (py_ceil (of_int batches_required / of_int max_daily_solution))
                                  (py_ceil (of_int batches_required / of_int max_daily_coating)))
                             num_workdays)]
                        else []))
                    else
                      (let X = (\<lambda>s m u d. make_var (Act s m d) u);
                           count = (\<lambda>s m u. if u then var_sum a num_workdays (Act s m) else 0);
                           min_staff = py_int (a Staff);
                           total_sol_value = sum_list (map (\<lambda>d.
                             4 * (a (Act Morning Solution d) + a (Act Evening Solution d)
                                  + a (Act Night Solution d))) (days num_workdays));
                           total_solution_produced = py_int total_sol_value;
                           total_coat_value = sum_list (map (\<lambda>d.
                             2 * (safe_value a (X Morning BOSCH use_bosch d)
                                  + safe_value a (X Evening BOSCH use_bosch d)
                                  + safe_value a (X Night BOSCH use_bosch d))
                             + 2 * (safe_value a (X Morning GLATT use_glatt d)
                                    + safe_value a (X Evening GLATT use_glatt d)
                                    + safe_value a (X Night GLATT use_glatt d)))
                             (days num_workdays));
                           total_coating_produced = py_int total_coat_value;
                           final_batches = min total_solution_produced total_coating_produced;
                           r = \<lparr> machines_used = [(BOSCH, use_bosch), (GLATT, use_glatt)],
                                 morning_shifts =
                                   [(Solution, var_sum a num_workdays (Act Morning Solution)),
                                    (BOSCH, count Morning BOSCH use_bosch),
                                    (GLATT, count Morning GLATT use_glatt)],
                                 evening_shifts =
                                   [(Solution, var_sum a num_workdays (Act Evening Solution)),
                                    (BOSCH, count Evening BOSCH use_bosch),
                                    (GLATT, count Evening GLATT use_glatt)],
                                 night_shifts =
                                   [(Solution, var_sum a num_workdays (Act Night Solution)),
                                    (BOSCH, count Night BOSCH use_bosch),
                                    (GLATT, count Night GLATT use_glatt)],
                                 pct_demand_completed =
                                   (if batches_required > 0
                                    then (of_int final_batches / of_int batches_required) * 100
                                    else 0),
                                 min_staff_required = min_staff,
                                 staff_with_buffer =
                                   py_ceil (of_int min_staff * (1 + buffer_ratio)),
                                 days_used = var_sum a num_workdays DayUsed,
                                 num_workdays_horizon = num_workdays,
                                 solver_status = solver_status,
                                 total_solution_produced = total_solution_produced,
                                 total_coating_produced = total_coating_produced,
                                 final_batches_count = final_batches \<rparr>
                       in (Some r,
                           Solve model #
                           (if print_solution then [Print (Coating_summary r)] else []))))))"

section \<open>The Aggregator and the two searches\<close>

record combined_result =
  dispensing :: stage_result
  granulation :: stage_result
  tableting :: stage_result
  coating :: coating_result
  total_min_staff_summed :: int
  total_staff_with_buffer_summed :: int
  total_days_needed :: "int option"
  workdays_allocated :: "int option"
  max_feasible_batches :: "int option"

text \<open>
  The four stage solves as \<open>Formulation_PS\<close> calls them: by keyword, with
  \<open>print_solution=False\<close> and without a \<open>solver\<close> argument. Python looks the four
  names up in the module when the call is made, so the body of the Aggregator is
  written over the four callees; \<open>optimize_osd_schedule\<close> below is that body with
  the functions the module imports.
\<close>

record stage_solves =
  call_dispensing :: "int \<Rightarrow> int \<Rightarrow> rat \<Rightarrow> weights \<Rightarrow> bool \<Rightarrow> stage_result run"
  call_granulation :: "int \<Rightarrow> int \<Rightarrow> rat \<Rightarrow> weights \<Rightarrow> bool \<Rightarrow> stage_result run"
  call_tableting ::
    "int \<Rightarrow> int \<Rightarrow> bool \<Rightarrow> bool \<Rightarrow> bool \<Rightarrow> rat \<Rightarrow> weights \<Rightarrow> bool \<Rightarrow> stage_result run"
  call_coating :: "int \<Rightarrow> int \<Rightarrow> bool \<Rightarrow> bool \<Rightarrow> rat \<Rightarrow> weights \<Rightarrow> bool \<Rightarrow> coating_result run"

record toggles =
  use_p3030 :: bool
  use_p3090i :: bool
  use_ima :: bool
  use_bosch :: bool
  use_glatt :: bool

definition osd_schedule_body ::
  "stage_solves \<Rightarrow> int \<Rightarrow> int \<Rightarrow> int \<Rightarrow> int \<Rightarrow> int \<Rightarrow> rat \<Rightarrow> weights \<Rightarrow> toggles \<Rightarrow> bool
     \<Rightarrow> combined_result run" where
  "osd_schedule_body S disp_batches_req gran_batches_req tab_batches_req coat_batches_req
       num_workdays buffer_ratio w t print_combined =
     (let (disp_result, tr1) =
            call_dispensing S disp_batches_req num_workdays buffer_ratio w False;
          tr1 = Stage_call Dispensing disp_batches_req num_workdays # tr1
      in case disp_result of None \<Rightarrow> (None, tr1) | Some disp_result \<Rightarrow>
     (let (gran_result, tr2) =
            call_granulation S gran_batches_req num_workdays buffer_ratio w False;
          tr2 = tr1 @ Stage_call Granulation gran_batches_req num_workdays # tr2
      in case gran_result of None \<Rightarrow> (None, tr2) | Some gran_result \<Rightarrow>
     (let (tab_result, tr3) =
            call_tableting S tab_batches_req num_workdays (use_p3030 t) (use_p3090i t) (use_ima t)
              buffer_ratio w False;
          tr3 = tr2 @ Stage_call Tableting tab_batches_req num_workdays # tr3
      in case tab_result of None \<Rightarrow> (None, tr3) | Some tab_result \<Rightarrow>
     (let (coat_result, tr4) =
            call_coating S coat_batches_req num_workdays (use_bosch t) (use_glatt t)
              buffer_ratio w False;
          tr4 = tr3 @ Stage_call Coating coat_batches_req num_workdays # tr4
      in case coat_result of None \<Rightarrow> (None, tr4) | Some coat_result \<Rightarrow>
     (let total_staff =
            min_staff_required disp_result + min_staff_required gran_result
            + min_staff_required tab_result + min_staff_required coat_result;
          total_staff_with_buffer =
            staff_with_buffer disp_result + staff_with_buffer gran_result
            + staff_with_buffer tab_result + staff_with_buffer coat_result
      in (Some \<lparr> dispensing = disp_result,
                  granulation = gran_result,
                  tableting = tab_result,
                  coating = coat_result,
                  total_min_staff_summed = total_staff,
                  total_staff_with_buffer_summed = total_staff_with_buffer,
                  total_days_needed = None,
                  workdays_allocated = None,
                  max_feasible_batches = None \<rparr>,
          tr4 @ (if print_combined
                 then [Print (Combined_summary total_staff total_staff_with_buffer)]
                 else [])))))))"

definition module_stage_solves :: "env \<Rightarrow> stage_solves" where
  "module_stage_solves e =
     \<lparr> call_dispensing = (\<lambda>b n r w p. optimize_dispensing e b n r w p None),
       call_granulation = (\<lambda>b n r w p. optimize_granulation e b n r w p None),
       call_tableting = optimize_tableting e,
       call_coating = optimize_coating e \<rparr>"

definition optimize_osd_schedule ::
  "env \<Rightarrow> int \<Rightarrow> int \<Rightarrow> int \<Rightarrow> int \<Rightarrow> int \<Rightarrow> rat \<Rightarrow> weights \<Rightarrow> toggles \<Rightarrow> bool
     \<Rightarrow> combined_result run" where
  "optimize_osd_schedule e = osd_schedule_body (module_stage_solves e)"

subsection \<open>Horizon Search\<close>

text \<open>
  The Aggregator as the two searches call it: one batch count for all four stages,
  a horizon, \<open>print_combined=False\<close>. The searches are written over this callee, for
  the same reason as above.
\<close>

type_synonym aggregator = "int \<Rightarrow> int \<Rightarrow> combined_result run"

text \<open>
  The \<open>while\<close> loop of \<open>optimize_osd_schedule_with_total\<close>, on the variables
  \<open>result\<close> and \<open>current_days\<close> and the effects so far.
\<close>

function horizon_loop ::
  "aggregator \<Rightarrow> int \<Rightarrow> combined_result option \<Rightarrow> int \<Rightarrow> event list
     \<Rightarrow> combined_result option \<times> int \<times> event list" where
  "horizon_loop agg total_batches result current_days tr =
     (if result = None \<and> current_days \<le> 365 then
        (let current_days = current_days + 7;
             (result, tr') = agg total_batches current_days
         in horizon_loop agg total_batches result current_days
              (tr @ Aggregator_call total_batches current_days # tr'))
      else (result, current_days, tr))"
  by pat_completeness auto
termination
  by (relation "measure (\<lambda>(agg, total_batches, result, current_days, tr).
        nat (366 - current_days))") auto

definition osd_schedule_with_total_body ::
  "aggregator \<Rightarrow> int \<Rightarrow> int \<Rightarrow> bool \<Rightarrow> combined_result run" where
  "osd_schedule_with_total_body agg total_batches initial_workdays print_combined =
     (let (result, tr) = agg total_batches initial_workdays;
          (result, current_days, tr) =
            horizon_loop agg total_batches result initial_workdays
              (Aggregator_call total_batches initial_workdays # tr)
      in case result of
           None \<Rightarrow> (None, tr @ (if print_combined then [Print No_feasible_365] else []))
         | Some result \<Rightarrow>
            (let disp_days = days_used (dispensing result);
                 total_days_needed =
                   max (max (max disp_days (disp_days + 1)) (disp_days + 2)) (disp_days + 3)
             in (Some (result \<lparr> total_days_needed := Some total_days_needed,
                               workdays_allocated := Some current_days \<rparr>),
                 tr @ (if print_combined
                       then [Print (Schedule_summary total_days_needed current_days)]
                       else []))))"

definition module_aggregator :: "env \<Rightarrow> rat \<Rightarrow> weights \<Rightarrow> toggles \<Rightarrow> aggregator" where
  "module_aggregator e buffer_ratio w t =
     (\<lambda>batches num_workdays.
        optimize_osd_schedule e batches batches batches batches num_workdays buffer_ratio w t False)"

definition optimize_osd_schedule_with_total ::
  "env \<Rightarrow> int \<Rightarrow> int \<Rightarrow> rat \<Rightarrow> weights \<Rightarrow> toggles \<Rightarrow> bool \<Rightarrow> combined_result run" where
  "optimize_osd_schedule_with_total e total_batches initial_workdays buffer_ratio w t
       print_combined =
     osd_schedule_with_total_body (module_aggregator e buffer_ratio w t)
       total_batches initial_workdays print_combined"

subsection \<open>Throughput Search\<close>

record search_state =
  lower_bound :: int
  upper_bound :: int
  best_result :: "combined_result option"
  best_batches :: int
  iteration :: int
  effects :: "event list"

text \<open>
  The \<open>while\<close> loop of \<open>optimize_max_batches\<close>; \<open>best_result\<close> and \<open>best_batches\<close>
  are its variables \<open>max_feasible_result\<close> and \<open>max_feasible_batches\<close>.
\<close>

function max_batches_loop :: "aggregator \<Rightarrow> int \<Rightarrow> int \<Rightarrow> search_state \<Rightarrow> search_state" where
  "max_batches_loop agg num_workdays max_iterations s =
     (if lower_bound s \<le> upper_bound s \<and> iteration s < max_iterations then
        (let iteration' = iteration s + 1;
             current_batches = (lower_bound s + upper_bound s) div 2;
             (result, tr) = agg current_batches num_workdays;
             tr' = effects s @ Aggregator_call current_batches num_workdays # tr
         in case result of
              Some r \<Rightarrow>
                max_batches_loop agg num_workdays max_iterations
                  (s \<lparr> lower_bound := current_batches + 1,
                       best_result := Some r,
                       best_batches := current_batches,
                       iteration := iteration',
                       effects := tr' \<rparr>)
            | None \<Rightarrow>
                max_batches_loop agg num_workdays max_iterations
                  (s \<lparr> upper_bound := current_batches - 1,
                       iteration := iteration',
                       effects := tr' \<rparr>))
      else s)"
  by pat_completeness auto
termination
  by (relation "measure (\<lambda>(agg, num_workdays, max_iterations, s).
        nat (max_iterations - iteration s))") (auto split: prod.splits)

definition max_batches_body :: "aggregator \<Rightarrow> int \<Rightarrow> int \<Rightarrow> bool \<Rightarrow> combined_result run" where
  "max_batches_body agg num_workdays max_iterations print_solution =
     (let s = max_batches_loop agg num_workdays max_iterations
                \<lparr> lower_bound = 1,
                  upper_bound = num_workdays * 27,
                  best_result = None,
                  best_batches = 0,
                  iteration = 0,
                  effects = [] \<rparr>
      in case best_result s of
           None \<Rightarrow> (None, effects s @ (if print_solution then [Print No_feasible_solution] else []))
         | Some r \<Rightarrow>
            (Some (r \<lparr> max_feasible_batches := Some (best_batches s) \<rparr>),
             effects s @ (if print_solution then [Print (Maximum_summary (best_batches s))]
                          else [])))"

definition optimize_max_batches ::
  "env \<Rightarrow> int \<Rightarrow> rat \<Rightarrow> weights \<Rightarrow> toggles \<Rightarrow> int \<Rightarrow> bool \<Rightarrow> combined_result run" where
  "optimize_max_batches e num_workdays buffer_ratio w t max_iterations print_solution =
     max_batches_body (module_aggregator e buffer_ratio w t)
       num_workdays max_iterations print_solution"

section \<open>The Capacity Catalog and concrete inputs\<close>




text \<open>The default weights of the stage solves and of the functions of \<open>Formulation_PS\<close>.\<close>

definition default_weights :: weights where
  "default_weights =
     \<lparr> w_staff = 100, w_morning = 0, w_evening = 1 / 10, w_night = 2,
       w_weekend = 3, w_daysUsed = 1 \<rparr>"

text \<open>
  A solver that answers \<open>Optimal\<close> with every variable at 0: the optimum of every
  stage model whose demand is 0.
\<close>

definition all_zero_solver :: solver where
  "all_zero_solver p = (Optimal, (\<lambda>v. 0))"

definition all_zero_env :: env where
  "all_zero_env =
     \<lparr> SOLVER_INSTANCE = all_zero_solver, PS_GUI3_solver = all_zero_solver,
       PULP_CBC_CMD = all_zero_solver \<rparr>"






definition all_machines :: toggles where
  "all_machines = \<lparr> use_p3030 = True, use_p3090i = True, use_ima = True,
                     use_bosch = True, use_glatt = True \<rparr>"


text \<open>
  The batch counts the loop of the Throughput Search probes, in order: the same
  recursion as \<open>max_batches_loop\<close>, on its variables \<open>lower_bound\<close>,
  \<open>upper_bound\<close> and \<open>iteration\<close>, keeping only \<open>current_batches\<close>.
\<close>

function max_batches_probes :: "aggregator \<Rightarrow> int \<Rightarrow> int \<Rightarrow> int \<Rightarrow> int \<Rightarrow> int \<Rightarrow> int list" where
  "max_batches_probes agg num_workdays max_iterations lower upper iter =
     (if lower \<le> upper \<and> iter < max_iterations then
        (let current_batches = (lower + upper) div 2
         in current_batches #
            (if fst (agg current_batches num_workdays) \<noteq> None
             then max_batches_probes agg num_workdays max_iterations
                    (current_batches + 1) upper (iter + 1)
             else max_batches_probes agg num_workdays max_iterations
                    lower (current_batches - 1) (iter + 1)))
      else [])"
  by pat_completeness auto
termination
  by (relation "measure (\<lambda>(agg, num_workdays, max_iterations, lower, upper, iter).
        nat (max_iterations - iter))") auto

section \<open>What the claims say about the solver and the results\<close>




section \<open>Properties\<close>

lemmas [simp del] = horizon_loop.simps max_batches_loop.simps

subsection \<open>The status comparison of Dispensing\<close>

lemma dispensing_none: "fst (optimize_dispensing e b n r w p s) = None"
  by (simp add: optimize_dispensing_def Let_def split: prod.splits)

lemma dispensing_effects:
  "snd (optimize_dispensing e b n r w False s) =
     (if 9 * n < b then [] else [Solve (dispensing_model b n w)])"
  by (simp add: optimize_dispensing_def Let_def split: prod.splits)

lemma osd_body_first_none:
  "fst (call_dispensing S db n r w False) = None \<Longrightarrow>
   fst (osd_schedule_body S db gb tb cb n r w t pc) = None"
  by (cases "call_dispensing S db n r w False")
     (simp add: osd_schedule_body_def Let_def)

lemma osd_none: "fst (optimize_osd_schedule e db gb tb cb n r w t pc) = None"
  unfolding optimize_osd_schedule_def
  by (rule osd_body_first_none) (simp add: module_stage_solves_def dispensing_none)

lemma horizon_loop_none:
  "\<forall>b n. fst (agg b n) = None \<Longrightarrow> result = None \<Longrightarrow>
   fst (horizon_loop agg tb result cd tr) = None"
proof (induction agg tb result cd tr rule: horizon_loop.induct)
  case (1 agg tb result cd tr)
  show ?case
  proof (cases "cd \<le> 365")
    case True
    obtain r' t' where a: "agg tb (cd + 7) = (r', t')" by fastforce
    have r': "r' = None" using "1.prems"(1) a by (metis fst_conv)
    show ?thesis
      using 1 True a r' by (subst horizon_loop.simps) (simp add: Let_def)
  next
    case False
    then show ?thesis using 1 by (subst horizon_loop.simps) simp
  qed
qed

lemma with_total_none:
  "fst (optimize_osd_schedule_with_total e tb iw r w t pc) = None"
proof -
  let ?agg = "module_aggregator e r w t"
  have agg: "\<And>b n. fst (?agg b n) = None"
    by (simp add: module_aggregator_def osd_none)
  obtain r0 t0 where a: "?agg tb iw = (r0, t0)" by fastforce
  have r0: "r0 = None" using agg[of tb iw] a by simp
  obtain r1 c1 t1 where
    h: "horizon_loop ?agg tb None iw (Aggregator_call tb iw # t0) = (r1, c1, t1)"
    using prod_cases3 by blast
  have "r1 = None"
    using horizon_loop_none[of ?agg None tb iw "Aggregator_call tb iw # t0"] agg h by simp
  then show ?thesis
    using a r0 h
    by (simp add: optimize_osd_schedule_with_total_def osd_schedule_with_total_body_def)
qed

lemma max_batches_loop_none:
  "\<forall>b n. fst (agg b n) = None \<Longrightarrow> best_result s = None \<Longrightarrow>
   best_result (max_batches_loop agg n mi s) = None"
proof (induction agg n mi s rule: max_batches_loop.induct)
  case (1 agg n mi s)
  show ?case
  proof (cases "lower_bound s \<le> upper_bound s \<and> iteration s < mi")
    case True
    obtain r' t' where a: "agg ((lower_bound s + upper_bound s) div 2) n = (r', t')"
      by fastforce
    have r': "r' = None" using "1.prems"(1) a by (metis fst_conv)
    show ?thesis
      using 1 True a r' by (subst max_batches_loop.simps) (simp add: Let_def)
  next
    case False
    then have "max_batches_loop agg n mi s = s"
      by (subst max_batches_loop.simps) auto
    then show ?thesis using "1.prems" by simp
  qed
qed

lemma max_batches_none:
  "fst (optimize_max_batches e n r w t mi ps) = None"
proof -
  let ?agg = "module_aggregator e r w t"
  have agg: "\<And>b n. fst (?agg b n) = None"
    by (simp add: module_aggregator_def osd_none)
  show ?thesis
    using max_batches_loop_none[of ?agg
            "\<lparr> lower_bound = 1, upper_bound = n * 27, best_result = None,
               best_batches = 0, iteration = 0, effects = [] \<rparr>" n mi] agg
    by (simp add: optimize_max_batches_def max_batches_body_def Let_def)
qed

text \<open>
  Claim C1. \<open>optimize_dispensing\<close> stores the integer status that \<open>model.solve\<close>
  returns and compares it with the string \<open>'Optimal'\<close>; an integer is never equal to
  a string, so whatever the solver answers the branch that returns \<open>None\<close> is taken.
  For every demand, horizon, buffer ratio, weights and solver the Dispensing solve
  returns \<open>None\<close>; when the capacity pre-check passes it does so after handing its
  model to the solver. Hence the Aggregator, the Horizon Search and the Throughput
  Search return \<open>None\<close> for every input.
\<close>

theorem dispensing_status_never_optimal:
  "PyInt (status_code st) \<noteq> PyStr ''Optimal''
   \<and> fst (optimize_dispensing e b n r w p s) = None
   \<and> snd (optimize_dispensing e b n r w False s) =
       (if 9 * n < b then [] else [Solve (dispensing_model b n w)])
   \<and> fst (optimize_osd_schedule e db gb tb cb n r w t pc) = None
   \<and> fst (optimize_osd_schedule_with_total e total_batches iw r w t pc) = None
   \<and> fst (optimize_max_batches e n r w t mi ps) = None"
  by (simp only: dispensing_none dispensing_effects osd_none with_total_none
        max_batches_none pyval.distinct not_False_eq_True simp_thms)

subsection \<open>Arithmetic of the diagnostics\<close>

lemma py_ceil_of_int_div: "py_ceil (of_int a / of_int b) = - ((- a) div b)"
  by (simp add: py_ceil_def ceiling_divide_eq_div)

lemma py_ceil_numeral_div [simp]:
  "py_ceil (numeral a / numeral b) = - ((- numeral a) div numeral b)"
  using py_ceil_of_int_div[of "numeral a" "numeral b"] by simp

subsection \<open>Structural infeasibility\<close>

text \<open>
  Claim C9. With every machine of Tableting disabled, and with both machines of
  Coating disabled, the stage solve returns \<open>None\<close> for every demand and horizon; its
  only effect is the message that no machine is selected (when printing is on), so
  no model is handed to the solver.
\<close>

theorem no_resource_enabled_is_infeasible:
  "optimize_tableting e b n False False False r w p =
     (None, if p then [Print No_machines_selected] else [])
   \<and> optimize_coating e b n False False r w p =
     (None, if p then [Print No_machines_selected] else [])"
  by (simp add: optimize_tableting_def optimize_coating_def)

subsection \<open>The capacity pre-check\<close>










subsection \<open>Demand 0\<close>

text \<open>
  Claim C2 at Dispensing. With a demand of 0, one day and a solver that answers
  \<open>Optimal\<close> with every variable at 0, the pre-check passes and the model is handed
  to the solver, but the solve returns \<open>None\<close>. Granulation, whose code differs only
  in how it reads the status, returns the Stage Result with no activation, headcount
  0 and 0 days used.
\<close>

theorem dispensing_demand_zero_returns_none:
  "optimize_dispensing all_zero_env 0 1 0 default_weights False None =
     (None, [Solve (dispensing_model 0 1 default_weights)])
   \<and> fst (optimize_granulation all_zero_env 0 1 0 default_weights False None) =
     Some \<lparr> machines_used = [], morning_shifts = [(Line, 0)], evening_shifts = [(Line, 0)],
            night_shifts = [(Line, 0)], pct_demand_completed = 0, min_staff_required = 0,
            staff_with_buffer = 0, days_used = 0, num_workdays_horizon = 1,
            solver_status = PyStr ''Optimal'', total_batches_produced = 0 \<rparr>"
  by (simp add: optimize_dispensing_def optimize_granulation_def all_zero_env_def
        all_zero_solver_def line_result_def var_sum_def days_def py_int_def py_ceil_def)


subsection \<open>The Aggregator\<close>







subsection \<open>The Horizon Search\<close>






lemma max_offsets: "Max ((\<lambda>i. d + i) ` {0, 1, 2, 3}) = (d::int) + 3"
  by simp










subsection \<open>The Throughput Search\<close>


lemmas [simp del] = max_batches_probes.simps













subsection \<open>Production of a returned Stage Result\<close>


lemma eval_lin_append [simp]: "eval_lin a (e @ f) = eval_lin a e + eval_lin a f"
  by (simp add: eval_lin_def)

lemma eval_lin_Nil [simp]: "eval_lin a [] = 0"
  by (simp add: eval_lin_def)

lemma eval_lin_scale [simp]: "eval_lin a (scale c e) = c * eval_lin a e"
  by (induction e) (auto simp: eval_lin_def scale_def algebra_simps)

lemma eval_lin_lpvar [simp]: "eval_lin a (lpvar v) = a v"
  by (simp add: eval_lin_def lpvar_def)

lemma eval_lin_make_var [simp]: "eval_lin a (make_var v u) = (if u then a v else 0)"
  by (simp add: make_var_def)




lemma py_int_of_int [simp]: "py_int (of_int k) = k"
  by (simp add: py_int_def)










lemma sum_list_if_const:
  "sum_list (map (\<lambda>d. if u then f d else (0::rat)) xs) = (if u then sum_list (map f xs) else 0)"
  by (induction xs) auto






















end
